theory Spec2Isabelle
  imports Main "HOL-Library.Word"
begin

unbundle bit_operations_syntax

section \<open>The point-to-point LoRa link of WisBlock-API (src/lora.cpp)\<close>

text \<open>
  The file \<^verbatim>\<open>lora.cpp\<close> configures the SX126x radio, starts a transmission by a channel
  activity detection (CAD) and hands the radio's events to the application task through the
  global event word and the task semaphore.  Every function of the file is embedded below as
  a function on the record of the globals it reads and writes.  The calls into the external
  collaborators (the \<^verbatim>\<open>Radio\<close> driver object, \<^verbatim>\<open>digitalWrite\<close>, the FreeRTOS semaphore, the
  wake-up timer, the board bring-up) are recorded, in program order and with the arguments of
  the source, in the field \<open>effects\<close>; what the radio and the indicator light are left with is
  read off that list.  \<^verbatim>\<open>API_LOG\<close> only prints and is left out.
\<close>

subsection \<open>Data\<close>

type_synonym byte = "8 word"

text \<open>The enumerations of the radio driver and of the Arduino core named in the file.\<close>

datatype RadioModems_t = MODEM_FSK | MODEM_LORA

datatype RadioLoRaCadSymbols_t =
  LORA_CAD_01_SYMBOL | LORA_CAD_02_SYMBOL | LORA_CAD_04_SYMBOL | LORA_CAD_08_SYMBOL
  | LORA_CAD_16_SYMBOL

datatype RadioCadExitModes_t = LORA_CAD_ONLY | LORA_CAD_RX | LORA_CAD_LBT

datatype pin_level = LOW | HIGH

text \<open>The six event handlers of the file, as the values of the function pointers.\<close>

datatype handler =
  H_on_tx_done | H_on_rx_done | H_on_tx_timeout | H_on_rx_timeout | H_on_rx_crc_error
  | H_on_cad_done

text \<open>\<^verbatim>\<open>static RadioEvents_t RadioEvents\<close>: a null pointer is \<open>None\<close>.\<close>

record RadioEvents_t =
  TxDone :: "handler option"
  RxDone :: "handler option"
  TxTimeout :: "handler option"
  RxTimeout :: "handler option"
  RxError :: "handler option"
  CadDone :: "handler option"

text \<open>
  Modelled from the spec: the structure of \<^verbatim>\<open>g_lorawan_settings\<close> is declared in
  \<^verbatim>\<open>WisBlock-API.h\<close>, which is not part of the sources at hand.  The record has the fields
  that \<^verbatim>\<open>lora.cpp\<close> reads, the radio settings of the specification.  They are kept as
  natural numbers, and the sum \<^verbatim>\<open>p2p_sf + 13\<close> is the integer C++ computes after
  promotion.
\<close>

record s_lorawan_settings =
  p2p_frequency :: nat
  p2p_tx_power :: nat
  p2p_bandwidth :: nat
  p2p_sf :: nat
  p2p_cr :: nat
  p2p_preamble_len :: nat
  p2p_symbol_timeout :: nat
  send_repeat_time :: nat

text \<open>
  The calls that leave the file, each with the arguments in the order of the source:
  booleans where the source writes \<^verbatim>\<open>true\<close>/\<^verbatim>\<open>false\<close>, numbers elsewhere.
  \<open>RadioSend\<close> carries the array the pointer argument refers to and the length argument.
\<close>

datatype effect =
  Rak4630Init
  | RadioInit RadioEvents_t
  | RadioSleep
  | RadioSetChannel nat
  | RadioSetTxConfig RadioModems_t nat nat nat nat nat nat bool bool nat nat bool nat
  | RadioSetRxConfig RadioModems_t nat nat nat nat nat nat bool nat bool nat nat bool bool
  | RadioSetCadParams RadioLoRaCadSymbols_t nat nat RadioCadExitModes_t nat
  | RadioStartCad
  | RadioRx nat
  | RadioSend "byte list" nat
  | TimerBegin nat
  | TimerStart
  | DigitalWrite nat pin_level
  | SemaphoreGive nat

text \<open>
  The macros of \<^verbatim>\<open>WisBlock-API.h\<close> and of the board variant that the file uses are not
  defined in it: the two event bits and the pin of the indicator light are parameters.
\<close>

record api_consts =
  LORA_DATA :: "16 word"
  LORA_TX_FIN :: "16 word"
  LED_BUILTIN :: nat

text \<open>
  Modelled from the spec: the globals are declared in other files of the library, which are
  not part of the sources at hand; \<^verbatim>\<open>lora.cpp\<close> only uses them.  The record has one field
  for each global the file names, and \<open>effects\<close>.  The pending receive and transmit
  frames are a byte buffer and a length each: the buffers are lists whose length is the
  capacity of the array, and the two lengths are natural numbers, so that storing a size
  does not narrow it.  The event flags are a word of bits, here sixteen, and the boolean
  \<open>g_rx_fin_result\<close>.  \<open>g_task_sem\<close> is the semaphore handle, \<open>None\<close> for \<^verbatim>\<open>NULL\<close>; the
  signal data are stored with the types of the parameters of \<open>on_rx_done\<close>.
\<close>

record state =
  g_lorawan_initialized :: bool
  g_lorawan_settings :: s_lorawan_settings
  RadioEvents :: RadioEvents_t
  g_rx_fin_result :: bool
  g_task_event_type :: "16 word"
  g_task_sem :: "nat option"
  g_last_rssi :: "16 word"
  g_last_snr :: "8 word"
  g_rx_lora_data :: "byte list"
  g_rx_data_len :: nat
  g_tx_lora_data :: "byte list"
  g_tx_data_len :: nat
  effects :: "effect list"

text \<open>
  \<^verbatim>\<open>memcpy\<close> outside either array is undefined behaviour in C++; the model makes it a
  fault instead of a value.
\<close>

datatype fault = OutOfBounds

definition memcpy :: "byte list \<Rightarrow> byte list \<Rightarrow> nat \<Rightarrow> fault + byte list" where
  "memcpy dst src n =
     (if n \<le> length src \<and> n \<le> length dst then Inr (take n src @ drop n dst)
      else Inl OutOfBounds)"

subsection \<open>The functions of the file\<close>

definition invoke :: "effect \<Rightarrow> state \<Rightarrow> state" where
  "invoke e s = s\<lparr>effects := effects s @ [e]\<rparr>"

text \<open>
  \<^verbatim>\<open>if (g_task_sem != NULL) { xSemaphoreGive(g_task_sem); }\<close>, the same three lines in
  \<open>on_tx_done\<close>, \<open>on_rx_done\<close> and \<open>on_tx_timeout\<close>.
\<close>

definition notify_task :: "state \<Rightarrow> state" where
  "notify_task s = (case g_task_sem s of None \<Rightarrow> s | Some h \<Rightarrow> invoke (SemaphoreGive h) s)"

definition all_handlers :: RadioEvents_t where
  "all_handlers =
     \<lparr>TxDone = Some H_on_tx_done, RxDone = Some H_on_rx_done,
      TxTimeout = Some H_on_tx_timeout, RxTimeout = Some H_on_rx_timeout,
      RxError = Some H_on_rx_crc_error, CadDone = Some H_on_cad_done\<rparr>"

text \<open>Lines 52 to 80 of \<open>init_lora\<close>: the configuration that every call applies.\<close>

definition init_lora_config :: "api_consts \<Rightarrow> state \<Rightarrow> int \<times> state" where
  "init_lora_config c s =
     (let g = g_lorawan_settings s;
          s1 = invoke RadioSleep s;
          s2 = invoke (RadioSetChannel (p2p_frequency g)) s1;
          s3 = invoke (RadioSetTxConfig MODEM_LORA (p2p_tx_power g) 0 (p2p_bandwidth g)
                         (p2p_sf g) (p2p_cr g) (p2p_preamble_len g) False True 0 0 False 5000) s2;
          s4 = invoke (RadioSetRxConfig MODEM_LORA (p2p_bandwidth g) (p2p_sf g) (p2p_cr g) 0
                         (p2p_preamble_len g) (p2p_symbol_timeout g) False 0 True 0 0 False True) s3;
          s5 = (if send_repeat_time g \<noteq> 0
                then invoke TimerStart (invoke (TimerBegin (send_repeat_time g)) s4)
                else s4);
          s6 = invoke (RadioRx 0) s5;
          s7 = invoke (DigitalWrite (LED_BUILTIN c) LOW) s6
      in (0, s7\<lparr>g_lorawan_initialized := True\<rparr>))"

text \<open>
  \<open>init_lora\<close>.  The argument \<open>hw\<close> is what \<^verbatim>\<open>lora_rak4630_init()\<close> returns if it is called.
\<close>

definition init_lora :: "api_consts \<Rightarrow> int \<Rightarrow> state \<Rightarrow> int \<times> state" where
  "init_lora c hw s =
     (if \<not> g_lorawan_initialized s then
        (let s1 = invoke Rak4630Init s in
         if hw \<noteq> 0 then (- 1, s1)
         else init_lora_config c
                (invoke (RadioInit all_handlers) (s1\<lparr>RadioEvents := all_handlers\<rparr>)))
      else init_lora_config c s)"

definition on_tx_done :: "api_consts \<Rightarrow> state \<Rightarrow> state" where
  "on_tx_done c s =
     invoke (RadioRx 0)
       (notify_task
          (s\<lparr>g_rx_fin_result := True,
             g_task_event_type := g_task_event_type s OR LORA_TX_FIN c\<rparr>))"

definition on_rx_done ::
    "api_consts \<Rightarrow> byte list \<Rightarrow> 16 word \<Rightarrow> 16 word \<Rightarrow> 8 word \<Rightarrow> state \<Rightarrow> fault + state" where
  "on_rx_done c payload size' rssi snr s =
     (case memcpy (g_rx_lora_data s) payload (unat size') of
        Inl f \<Rightarrow> Inl f
      | Inr buf \<Rightarrow>
          Inr (invoke (RadioRx 0)
                 (notify_task
                    (s\<lparr>g_last_rssi := rssi, g_last_snr := snr,
                       g_rx_lora_data := buf, g_rx_data_len := unat size',
                       g_task_event_type := g_task_event_type s OR LORA_DATA c\<rparr>))))"

definition on_tx_timeout :: "api_consts \<Rightarrow> state \<Rightarrow> state" where
  "on_tx_timeout c s =
     invoke (RadioRx 0)
       (notify_task
          (s\<lparr>g_rx_fin_result := False,
             g_task_event_type := g_task_event_type s OR LORA_TX_FIN c\<rparr>))"

definition on_rx_timeout :: "state \<Rightarrow> state" where
  "on_rx_timeout s = invoke (RadioRx 0) s"

definition on_rx_crc_error :: "state \<Rightarrow> state" where
  "on_rx_crc_error s = invoke (RadioRx 0) s"

definition on_cad_done :: "bool \<Rightarrow> state \<Rightarrow> state" where
  "on_cad_done cadResult s =
     (if cadResult then invoke (RadioRx 0) s
      else invoke (RadioSend (g_tx_lora_data s) (g_tx_data_len s)) s)"

text \<open>
  \<open>send_lora_packet\<close>.  The parameter \<open>size'\<close> (\<^verbatim>\<open>size\<close> in the source) is a \<^verbatim>\<open>uint8_t\<close>; the comparison with 256 is
  made on its value.  \<open>data\<close> is the array the pointer refers to.
\<close>

definition send_lora_packet ::
    "api_consts \<Rightarrow> byte list \<Rightarrow> 8 word \<Rightarrow> state \<Rightarrow> fault + bool \<times> state" where
  "send_lora_packet c data size' s =
     (if unat size' > 256 then Inr (False, s)
      else
        (case memcpy (g_tx_lora_data s) data (unat size') of
           Inl f \<Rightarrow> Inl f
         | Inr buf \<Rightarrow>
             (let s1 = s\<lparr>g_tx_data_len := unat size', g_tx_lora_data := buf\<rparr>;
                  s2 = invoke RadioSleep s1;
                  s3 = invoke (RadioSetCadParams LORA_CAD_08_SYMBOL
                                 (p2p_sf (g_lorawan_settings s) + 13) 10 LORA_CAD_ONLY 0) s2;
                  s4 = invoke (DigitalWrite (LED_BUILTIN c) HIGH) s3;
                  s5 = invoke RadioStartCad s4
              in Inr (True, s5))))"

subsection \<open>What the collaborators are left with\<close>

text \<open>
  The radio keeps the last value written to each of its settings and is in the mode the last
  mode-changing call put it in.  \<open>Mode_Rx t\<close> is reception with timeout \<open>t\<close>; \<open>t = 0\<close> is
  continuous reception.
\<close>

datatype radio_mode = Mode_Unset | Mode_Sleep | Mode_Rx nat | Mode_Cad | Mode_Tx

record radio =
  r_mode :: radio_mode
  r_callbacks :: "RadioEvents_t option"
  r_channel :: "nat option"
  r_tx_config :: "effect option"
  r_rx_config :: "effect option"
  r_cad_params :: "effect option"

definition radio0 :: radio where
  "radio0 = \<lparr>r_mode = Mode_Unset, r_callbacks = None, r_channel = None,
             r_tx_config = None, r_rx_config = None, r_cad_params = None\<rparr>"

fun radio_step :: "radio \<Rightarrow> effect \<Rightarrow> radio" where
  "radio_step r (RadioInit ev) = r\<lparr>r_callbacks := Some ev\<rparr>"
| "radio_step r RadioSleep = r\<lparr>r_mode := Mode_Sleep\<rparr>"
| "radio_step r (RadioSetChannel f) = r\<lparr>r_channel := Some f\<rparr>"
| "radio_step r (RadioSetTxConfig m a1 a2 a3 a4 a5 a6 b1 b2 a7 a8 b3 a9) =
     r\<lparr>r_tx_config := Some (RadioSetTxConfig m a1 a2 a3 a4 a5 a6 b1 b2 a7 a8 b3 a9)\<rparr>"
| "radio_step r (RadioSetRxConfig m a1 a2 a3 a4 a5 a6 b1 a7 b2 a8 a9 b3 b4) =
     r\<lparr>r_rx_config := Some (RadioSetRxConfig m a1 a2 a3 a4 a5 a6 b1 a7 b2 a8 a9 b3 b4)\<rparr>"
| "radio_step r (RadioSetCadParams n p q x t) =
     r\<lparr>r_cad_params := Some (RadioSetCadParams n p q x t)\<rparr>"
| "radio_step r RadioStartCad = r\<lparr>r_mode := Mode_Cad\<rparr>"
| "radio_step r (RadioRx t) = r\<lparr>r_mode := Mode_Rx t\<rparr>"
| "radio_step r (RadioSend buf n) = r\<lparr>r_mode := Mode_Tx\<rparr>"
| "radio_step r Rak4630Init = r"
| "radio_step r (TimerBegin t) = r"
| "radio_step r TimerStart = r"
| "radio_step r (DigitalWrite p v) = r"
| "radio_step r (SemaphoreGive h) = r"

definition radio_of :: "state \<Rightarrow> radio" where
  "radio_of s = foldl radio_step radio0 (effects s)"

text \<open>
  The file keeps no variable for the state of the link.  The link states \<open>Listening\<close>,
  \<open>Sensing\<close> and \<open>Transmitting\<close> of the specification are the modes of the radio:
  continuous reception, a running CAD, a running transmission.
\<close>

definition Listening :: "state \<Rightarrow> bool" where
  "Listening s = (r_mode (radio_of s) = Mode_Rx 0)"

definition Sensing :: "state \<Rightarrow> bool" where
  "Sensing s = (r_mode (radio_of s) = Mode_Cad)"

definition Transmitting :: "state \<Rightarrow> bool" where
  "Transmitting s = (r_mode (radio_of s) = Mode_Tx)"

text \<open>The level of a pin is the last one written to it, \<open>None\<close> before the first write.\<close>

fun pin_step :: "nat \<Rightarrow> pin_level option \<Rightarrow> effect \<Rightarrow> pin_level option" where
  "pin_step p l (DigitalWrite q v) = (if q = p then Some v else l)"
| "pin_step p l e = l"

definition indicator :: "api_consts \<Rightarrow> state \<Rightarrow> pin_level option" where
  "indicator c s = foldl (pin_step (LED_BUILTIN c)) None (effects s)"

text \<open>How often the semaphore was given, the bring-up run and the handlers registered.\<close>

fun is_give :: "effect \<Rightarrow> bool" where
  "is_give (SemaphoreGive h) = True"
| "is_give e = False"

fun is_radio_init :: "effect \<Rightarrow> bool" where
  "is_radio_init (RadioInit ev) = True"
| "is_radio_init e = False"

definition wakes :: "state \<Rightarrow> nat" where
  "wakes s = length (filter is_give (effects s))"

definition bring_ups :: "state \<Rightarrow> nat" where
  "bring_ups s = length (filter (\<lambda>e. e = Rak4630Init) (effects s))"

definition registrations :: "state \<Rightarrow> nat" where
  "registrations s = length (filter is_radio_init (effects s))"

subsection \<open>A run of the link\<close>

text \<open>
  The functions as the events of a run: the application initialises the link and asks for a
  transmission, the driver reports what the radio did.  \<open>SendRequest payload\<close> is the call
  \<^verbatim>\<open>send_lora_packet(payload, n)\<close> for a payload of \<open>n\<close> bytes: C++ converts \<open>n\<close> to the
  \<^verbatim>\<open>uint8_t\<close> parameter, which keeps its low eight bits.
\<close>

datatype event =
  InitLora int
  | SendRequest "byte list"
  | TxDoneEv
  | RxDoneEv "byte list" "16 word" "16 word" "8 word"
  | TxTimeoutEv
  | RxTimeoutEv
  | RxErrorEv
  | CadDoneEv bool

fun step :: "api_consts \<Rightarrow> state \<Rightarrow> event \<Rightarrow> fault + state" where
  "step c s (InitLora hw) = Inr (snd (init_lora c hw s))"
| "step c s (SendRequest payload) =
     map_sum id snd (send_lora_packet c payload (word_of_nat (length payload)) s)"
| "step c s TxDoneEv = Inr (on_tx_done c s)"
| "step c s (RxDoneEv payload n rssi snr) = on_rx_done c payload n rssi snr s"
| "step c s TxTimeoutEv = Inr (on_tx_timeout c s)"
| "step c s RxTimeoutEv = Inr (on_rx_timeout s)"
| "step c s RxErrorEv = Inr (on_rx_crc_error s)"
| "step c s (CadDoneEv b) = Inr (on_cad_done b s)"

fun run :: "api_consts \<Rightarrow> state \<Rightarrow> event list \<Rightarrow> fault + state" where
  "run c s [] = Inr s"
| "run c s (e # es) = (case step c s e of Inl f \<Rightarrow> Inl f | Inr s' \<Rightarrow> run c s' es)"

subsection \<open>Concrete inputs\<close>

text \<open>
  A board and the globals before \<open>init_lora\<close> has run: 915 MHz, spreading factor 7, coding rate
  1, bandwidth 125, preamble 8, no repeat timer; both frame buffers hold 256 zero bytes; the
  task semaphore exists.
\<close>

definition example_consts :: api_consts where
  "example_consts = \<lparr>LORA_DATA = 8, LORA_TX_FIN = 16, LED_BUILTIN = 35\<rparr>"

definition example_settings :: s_lorawan_settings where
  "example_settings =
     \<lparr>p2p_frequency = 915000000, p2p_tx_power = 22, p2p_bandwidth = 125, p2p_sf = 7,
      p2p_cr = 1, p2p_preamble_len = 8, p2p_symbol_timeout = 0, send_repeat_time = 0\<rparr>"

definition boot_state :: state where
  "boot_state =
     \<lparr>g_lorawan_initialized = False, g_lorawan_settings = example_settings,
      RadioEvents = \<lparr>TxDone = None, RxDone = None, TxTimeout = None, RxTimeout = None,
                     RxError = None, CadDone = None\<rparr>,
      g_rx_fin_result = False, g_task_event_type = 0, g_task_sem = Some 1,
      g_last_rssi = 0, g_last_snr = 0,
      g_rx_lora_data = replicate 256 0, g_rx_data_len = 0,
      g_tx_lora_data = replicate 256 0, g_tx_data_len = 0,
      effects = []\<rparr>"

text \<open>The link after a successful \<open>init_lora\<close>, and the same with no task semaphore.\<close>

definition listening_state :: state where
  "listening_state = snd (init_lora example_consts 0 boot_state)"

definition no_sem_state :: state where
  "no_sem_state = listening_state\<lparr>g_task_sem := None\<rparr>"

text \<open>The link while the CAD of an accepted three-byte packet is running.\<close>

definition sensing_state :: state where
  "sensing_state =
     listening_state
       \<lparr>g_tx_lora_data := [1, 2, 3] @ replicate 253 0, g_tx_data_len := 3,
        effects := effects listening_state @
          [RadioSleep, RadioSetCadParams LORA_CAD_08_SYMBOL 20 10 LORA_CAD_ONLY 0,
           DigitalWrite 35 HIGH, RadioStartCad]\<rparr>"

section \<open>Properties\<close>

subsection \<open>The functions as state updates\<close>

lemma unat_size8_le: "unat (x :: 8 word) \<le> 255"
  using unsigned_less [of x, where ?'a = nat] by simp

lemma unat_word_of_nat8: "unat (word_of_nat n :: 8 word) = n mod 256"
  by (simp add: unat_of_nat)

lemma invoke_fields [simp]:
  "effects (invoke e s) = effects s @ [e]"
  "g_task_sem (invoke e s) = g_task_sem s"
  "g_task_event_type (invoke e s) = g_task_event_type s"
  by (simp_all add: invoke_def)

lemma radio_of_append:
  "effects s' = effects s @ xs \<Longrightarrow> radio_of s' = foldl radio_step (radio_of s) xs"
  by (simp add: radio_of_def)

lemma indicator_append:
  "effects s' = effects s @ xs \<Longrightarrow> indicator c s' = foldl (pin_step (LED_BUILTIN c)) (indicator c s) xs"
  by (simp add: indicator_def)

lemma wakes_append:
  "effects s' = effects s @ xs \<Longrightarrow> wakes s' = wakes s + length (filter is_give xs)"
  by (simp add: wakes_def)

lemma send_lora_packet_eq:
  assumes "unat size' \<le> length data" and "unat size' \<le> length (g_tx_lora_data s)"
  shows "send_lora_packet c data size' s =
    Inr (True, s\<lparr>g_tx_data_len := unat size',
                 g_tx_lora_data := take (unat size') data @ drop (unat size') (g_tx_lora_data s),
                 effects := effects s @
                   [RadioSleep,
                    RadioSetCadParams LORA_CAD_08_SYMBOL (p2p_sf (g_lorawan_settings s) + 13) 10
                      LORA_CAD_ONLY 0,
                    DigitalWrite (LED_BUILTIN c) HIGH,
                    RadioStartCad]\<rparr>)"
  using assms unat_size8_le [of size']
  by (simp add: send_lora_packet_def memcpy_def invoke_def Let_def)

lemma init_lora_config_eq:
  "init_lora_config c s =
     (0, s\<lparr>effects := effects s @
            [RadioSleep,
             RadioSetChannel (p2p_frequency (g_lorawan_settings s)),
             RadioSetTxConfig MODEM_LORA (p2p_tx_power (g_lorawan_settings s)) 0
               (p2p_bandwidth (g_lorawan_settings s)) (p2p_sf (g_lorawan_settings s))
               (p2p_cr (g_lorawan_settings s)) (p2p_preamble_len (g_lorawan_settings s))
               False True 0 0 False 5000,
             RadioSetRxConfig MODEM_LORA (p2p_bandwidth (g_lorawan_settings s))
               (p2p_sf (g_lorawan_settings s)) (p2p_cr (g_lorawan_settings s)) 0
               (p2p_preamble_len (g_lorawan_settings s))
               (p2p_symbol_timeout (g_lorawan_settings s)) False 0 True 0 0 False True] @
            (if send_repeat_time (g_lorawan_settings s) \<noteq> 0
             then [TimerBegin (send_repeat_time (g_lorawan_settings s)), TimerStart] else []) @
            [RadioRx 0, DigitalWrite (LED_BUILTIN c) LOW],
          g_lorawan_initialized := True\<rparr>)"
  by (simp add: init_lora_config_def invoke_def Let_def)

lemma on_tx_done_eq:
  "on_tx_done c s =
     s\<lparr>g_rx_fin_result := True,
       g_task_event_type := g_task_event_type s OR LORA_TX_FIN c,
       effects := effects s @
         (case g_task_sem s of None \<Rightarrow> [] | Some h \<Rightarrow> [SemaphoreGive h]) @ [RadioRx 0]\<rparr>"
  by (simp add: on_tx_done_def notify_task_def invoke_def split: option.split)

lemma on_tx_timeout_eq:
  "on_tx_timeout c s =
     s\<lparr>g_rx_fin_result := False,
       g_task_event_type := g_task_event_type s OR LORA_TX_FIN c,
       effects := effects s @
         (case g_task_sem s of None \<Rightarrow> [] | Some h \<Rightarrow> [SemaphoreGive h]) @ [RadioRx 0]\<rparr>"
  by (simp add: on_tx_timeout_def notify_task_def invoke_def split: option.split)

lemma on_rx_done_eq:
  assumes "unat size' \<le> length payload" and "unat size' \<le> length (g_rx_lora_data s)"
  shows "on_rx_done c payload size' rssi snr s =
     Inr (s\<lparr>g_last_rssi := rssi, g_last_snr := snr,
            g_rx_lora_data := take (unat size') payload @ drop (unat size') (g_rx_lora_data s),
            g_rx_data_len := unat size',
            g_task_event_type := g_task_event_type s OR LORA_DATA c,
            effects := effects s @
              (case g_task_sem s of None \<Rightarrow> [] | Some h \<Rightarrow> [SemaphoreGive h]) @ [RadioRx 0]\<rparr>)"
  using assms
  by (simp add: on_rx_done_def memcpy_def notify_task_def invoke_def split: option.split)


lemma init_lora_first_eq:
  "\<not> g_lorawan_initialized s \<Longrightarrow>
   init_lora c 0 s =
     init_lora_config c
       (s\<lparr>RadioEvents := all_handlers,
          effects := effects s @ [Rak4630Init, RadioInit all_handlers]\<rparr>)"
  by (simp add: init_lora_def invoke_def Let_def)

lemma init_lora_again_eq:
  "g_lorawan_initialized s \<Longrightarrow> init_lora c hw s = init_lora_config c s"
  by (simp add: init_lora_def)

lemma listening_state_eq:
  "listening_state =
     boot_state
       \<lparr>g_lorawan_initialized := True, RadioEvents := all_handlers,
        effects :=
          [Rak4630Init, RadioInit all_handlers, RadioSleep, RadioSetChannel 915000000,
           RadioSetTxConfig MODEM_LORA 22 0 125 7 1 8 False True 0 0 False 5000,
           RadioSetRxConfig MODEM_LORA 125 7 1 0 8 0 False 0 True 0 0 False True,
           RadioRx 0, DigitalWrite 35 LOW]\<rparr>"
  by (simp add: listening_state_def init_lora_first_eq init_lora_config_eq boot_state_def
      example_settings_def example_consts_def)

lemma listening_state_fields:
  "g_lorawan_initialized listening_state"
  "g_lorawan_settings listening_state = example_settings"
  "g_task_sem listening_state = Some 1"
  "g_task_event_type listening_state = 0"
  "g_tx_lora_data listening_state = replicate 256 0"
  "g_rx_lora_data listening_state = replicate 256 0"
  "g_tx_data_len listening_state = 0"
  by (simp_all add: listening_state_eq boot_state_def)

lemma listening_state_Listening: "Listening listening_state"
  by (simp add: Listening_def radio_of_def listening_state_eq radio0_def)

lemma sensing_state_reached:
  "send_lora_packet example_consts [1, 2, 3] 3 listening_state = Inr (True, sensing_state)"
  by (simp add: send_lora_packet_eq listening_state_fields sensing_state_def
      example_settings_def example_consts_def)

lemma sensing_state_Sensing: "Sensing sensing_state"
  by (simp add: Sensing_def radio_of_def sensing_state_def listening_state_eq radio0_def)

lemma sensing_state_not_Listening: "\<not> Listening sensing_state"
  by (simp add: Listening_def radio_of_def sensing_state_def listening_state_eq radio0_def)

lemma no_sem_state_fields:
  "g_task_sem no_sem_state = None"
  "g_rx_lora_data no_sem_state = replicate 256 0"
  "effects no_sem_state = effects listening_state"
  by (simp_all add: no_sem_state_def listening_state_fields)

lemma Listening_after_Rx:
  "effects s' = effects s @ xs @ [RadioRx 0] \<Longrightarrow> Listening s'"
  by (simp add: Listening_def radio_of_def)

lemma or_keeps_bits: "(w OR m) AND w = (w :: 16 word)"
  by (auto simp add: bit_eq_iff bit_and_iff bit_or_iff)

lemma or_sets_bits: "(w OR m) AND m = (m :: 16 word)"
  by (auto simp add: bit_eq_iff bit_and_iff bit_or_iff)

lemma Sensing_after_StartCad:
  "effects s' = effects s @ xs @ [RadioStartCad] \<Longrightarrow> Sensing s'"
  by (simp add: Sensing_def radio_of_def)

lemma on_cad_done_busy_eq: "on_cad_done True s = s\<lparr>effects := effects s @ [RadioRx 0]\<rparr>"
  by (simp add: on_cad_done_def invoke_def)

lemma on_cad_done_clear_eq:
  "on_cad_done False s =
     s\<lparr>effects := effects s @ [RadioSend (g_tx_lora_data s) (g_tx_data_len s)]\<rparr>"
  by (simp add: on_cad_done_def invoke_def)

lemma Transmitting_after_Send:
  "effects s' = effects s @ xs @ [RadioSend buf n] \<Longrightarrow> Transmitting s'"
  by (simp add: Transmitting_def radio_of_def)

lemma send_lora_packet_frame:
  assumes "send_lora_packet c data size' s0 = Inr (True, s)"
  shows "g_tx_data_len s = unat size' \<and>
    take (unat size') (g_tx_lora_data s) = take (unat size') data \<and>
    unat size' \<le> length data"
proof (cases "unat size' \<le> length data \<and> unat size' \<le> length (g_tx_lora_data s0)")
  case True
  then have "send_lora_packet c data size' s0 =
    Inr (True, s0\<lparr>g_tx_data_len := unat size',
                 g_tx_lora_data := take (unat size') data @ drop (unat size') (g_tx_lora_data s0),
                 effects := effects s0 @
                   [RadioSleep,
                    RadioSetCadParams LORA_CAD_08_SYMBOL (p2p_sf (g_lorawan_settings s0) + 13) 10
                      LORA_CAD_ONLY 0,
                    DigitalWrite (LED_BUILTIN c) HIGH,
                    RadioStartCad]\<rparr>)"
    by (simp add: send_lora_packet_eq)
  with assms have "s = s0\<lparr>g_tx_data_len := unat size',
                 g_tx_lora_data := take (unat size') data @ drop (unat size') (g_tx_lora_data s0),
                 effects := effects s0 @
                   [RadioSleep,
                    RadioSetCadParams LORA_CAD_08_SYMBOL (p2p_sf (g_lorawan_settings s0) + 13) 10
                      LORA_CAD_ONLY 0,
                    DigitalWrite (LED_BUILTIN c) HIGH,
                    RadioStartCad]\<rparr>"
    by simp
  with True show ?thesis by simp
next
  case False
  then have "memcpy (g_tx_lora_data s0) data (unat size') = Inl OutOfBounds"
    by (auto simp add: memcpy_def)
  with assms show ?thesis
    by (simp add: send_lora_packet_def split: if_splits)
qed

lemma init_lora_config_fst: "fst (init_lora_config c s) = 0"
  by (simp add: init_lora_config_eq)

lemma init_lora_config_initialized: "g_lorawan_initialized (snd (init_lora_config c s))"
  by (simp add: init_lora_config_eq)

lemma init_lora_config_settings:
  "g_lorawan_settings (snd (init_lora_config c s)) = g_lorawan_settings s"
  by (simp add: init_lora_config_eq)

lemma init_lora_config_bring_ups: "bring_ups (snd (init_lora_config c s)) = bring_ups s"
  by (simp add: init_lora_config_eq bring_ups_def)

lemma init_lora_config_registrations:
  "registrations (snd (init_lora_config c s)) = registrations s"
  by (simp add: init_lora_config_eq registrations_def)

lemma init_lora_config_radio:
  "radio_of (snd (init_lora_config c s)) =
     (radio_of s)
       \<lparr>r_mode := Mode_Rx 0,
        r_channel := Some (p2p_frequency (g_lorawan_settings s)),
        r_tx_config := Some
          (RadioSetTxConfig MODEM_LORA (p2p_tx_power (g_lorawan_settings s)) 0
             (p2p_bandwidth (g_lorawan_settings s)) (p2p_sf (g_lorawan_settings s))
             (p2p_cr (g_lorawan_settings s)) (p2p_preamble_len (g_lorawan_settings s))
             False True 0 0 False 5000),
        r_rx_config := Some
          (RadioSetRxConfig MODEM_LORA (p2p_bandwidth (g_lorawan_settings s))
             (p2p_sf (g_lorawan_settings s)) (p2p_cr (g_lorawan_settings s)) 0
             (p2p_preamble_len (g_lorawan_settings s))
             (p2p_symbol_timeout (g_lorawan_settings s)) False 0 True 0 0 False True)\<rparr>"
  by (simp add: init_lora_config_eq radio_of_def)

lemma init_lora_config_indicator: "indicator c (snd (init_lora_config c s)) = Some LOW"
  by (simp add: init_lora_config_eq indicator_def)

lemma on_rx_timeout_eq: "on_rx_timeout s = s\<lparr>effects := effects s @ [RadioRx 0]\<rparr>"
  by (simp add: on_rx_timeout_def invoke_def)

lemma on_rx_crc_error_eq: "on_rx_crc_error s = s\<lparr>effects := effects s @ [RadioRx 0]\<rparr>"
  by (simp add: on_rx_crc_error_def invoke_def)

lemma indicator_on_tx_done: "indicator c (on_tx_done c s) = indicator c s"
  by (simp add: on_tx_done_eq indicator_def split: option.split)

lemma indicator_on_tx_timeout: "indicator c (on_tx_timeout c s) = indicator c s"
  by (simp add: on_tx_timeout_eq indicator_def split: option.split)

lemma indicator_on_cad_done: "indicator c (on_cad_done b s) = indicator c s"
  by (cases b) (simp_all add: on_cad_done_busy_eq on_cad_done_clear_eq indicator_def)

lemma indicator_on_rx_done:
  assumes "on_rx_done c payload size' rssi snr s = Inr s'"
  shows "indicator c s' = indicator c s"
proof -
  from assms obtain buf where
    "s' = invoke (RadioRx 0)
            (notify_task
               (s\<lparr>g_last_rssi := rssi, g_last_snr := snr,
                  g_rx_lora_data := buf, g_rx_data_len := unat size',
                  g_task_event_type := g_task_event_type s OR LORA_DATA c\<rparr>))"
    by (auto simp add: on_rx_done_def split: sum.splits)
  then show ?thesis
    by (simp add: indicator_def notify_task_def invoke_def split: option.split)
qed

lemma indicator_send_lora_packet:
  assumes "send_lora_packet c data size' s = Inr (True, s')"
  shows "indicator c s' = Some HIGH"
proof -
  from assms obtain buf where
    "s' = invoke RadioStartCad (invoke (DigitalWrite (LED_BUILTIN c) HIGH)
       (invoke (RadioSetCadParams LORA_CAD_08_SYMBOL
                  (p2p_sf (g_lorawan_settings s) + 13) 10 LORA_CAD_ONLY 0)
          (invoke RadioSleep (s\<lparr>g_tx_data_len := unat size', g_tx_lora_data := buf\<rparr>))))"
    by (auto simp add: send_lora_packet_def Let_def split: if_splits sum.splits)
  then show ?thesis
    by (simp add: indicator_def invoke_def)
qed

lemma indicator_init_lora:
  assumes "fst (init_lora c hw s) = 0"
  shows "indicator c (snd (init_lora c hw s)) = Some LOW"
proof (cases "\<not> g_lorawan_initialized s \<and> hw \<noteq> 0")
  case True
  then have "fst (init_lora c hw s) = - 1"
    by (simp add: init_lora_def Let_def)
  with assms show ?thesis by simp
next
  case False
  then have "\<exists>t. init_lora c hw s = init_lora_config c t"
    by (auto simp add: init_lora_def Let_def)
  then show ?thesis
    by (auto simp add: init_lora_config_indicator)
qed

lemma step_boot: "step example_consts boot_state (InitLora 0) = Inr listening_state"
  by (simp add: listening_state_def)

lemma step_listening:
  "step example_consts listening_state (SendRequest [1, 2, 3]) = Inr sensing_state"
proof -
  have w: "word_of_nat (length [1 :: byte, 2, 3]) = (3 :: 8 word)"
    by simp
  show ?thesis
    unfolding step.simps w by (simp add: sensing_state_reached)
qed

lemma run_send_cycle:
  "run example_consts boot_state [InitLora 0, SendRequest [1, 2, 3], CadDoneEv False, e] =
     step example_consts (on_cad_done False sensing_state) e"
proof -
  have "step example_consts sensing_state (CadDoneEv False) =
      Inr (on_cad_done False sensing_state)"
    by simp
  then show ?thesis
    by (simp only: run.simps step_boot step_listening sum.case split: sum.split) simp
qed

lemma run_cad_busy:
  "run example_consts boot_state [InitLora 0, SendRequest [1, 2, 3], CadDoneEv True] =
     Inr (on_cad_done True sensing_state)"
proof -
  have "step example_consts sensing_state (CadDoneEv True) =
      Inr (on_cad_done True sensing_state)"
    by simp
  then show ?thesis
    by (simp only: run.simps step_boot step_listening sum.case)
qed

lemma sensing_state_indicator: "indicator example_consts sensing_state = Some HIGH"
  by (simp add: indicator_def sensing_state_def listening_state_eq example_consts_def)

subsection \<open>Sending while a send cycle is in flight\<close>

text \<open>
  \<open>send_lora_packet\<close> reads neither the mode of the radio nor any other record of a running
  send cycle.  Called while the CAD of an earlier packet is still running, it returns
  \<^verbatim>\<open>true\<close>, overwrites the pending frame (length 3 becomes 1, first byte 1 becomes 9) and
  calls \<^verbatim>\<open>Radio.Sleep\<close>, \<^verbatim>\<open>Radio.SetCadParams\<close> and \<^verbatim>\<open>Radio.StartCad\<close> again.
\<close>

theorem send_lora_packet_busy_counterexample:
  "\<not> Listening sensing_state \<and> Sensing sensing_state \<and>
   \<not> isl (send_lora_packet example_consts [9] 1 sensing_state) \<and>
   fst (projr (send_lora_packet example_consts [9] 1 sensing_state)) = True \<and>
   effects (snd (projr (send_lora_packet example_consts [9] 1 sensing_state))) =
     effects sensing_state @
       [RadioSleep, RadioSetCadParams LORA_CAD_08_SYMBOL 20 10 LORA_CAD_ONLY 0,
        DigitalWrite 35 HIGH, RadioStartCad] \<and>
   g_tx_data_len sensing_state = 3 \<and>
   g_tx_data_len (snd (projr (send_lora_packet example_consts [9] 1 sensing_state))) = 1 \<and>
   take 3 (g_tx_lora_data sensing_state) = [1, 2, 3] \<and>
   take 3 (g_tx_lora_data (snd (projr (send_lora_packet example_consts [9] 1 sensing_state))))
     = [9, 2, 3]"
proof -
  have len: "unat (1 :: 8 word) \<le> length [9 :: byte]"
    "unat (1 :: 8 word) \<le> length (g_tx_lora_data sensing_state)"
    by (simp_all add: sensing_state_def)
  show ?thesis
    by (simp add: send_lora_packet_eq [OF len] sensing_state_not_Listening sensing_state_Sensing)
      (simp add: sensing_state_def listening_state_fields example_settings_def
        example_consts_def)
qed

text \<open>
  Claim C1, as the code has it: a call to \<open>send_lora_packet\<close> made while the link is not
  listening is not rejected.  Whenever the \<open>size'\<close> bytes can be read from \<open>data\<close> and fit
  the transmit buffer, the call returns \<^verbatim>\<open>true\<close>, stores the new length and bytes in the
  pending frame and calls, in this order, \<^verbatim>\<open>Radio.Sleep\<close>, \<^verbatim>\<open>Radio.SetCadParams\<close>,
  \<^verbatim>\<open>digitalWrite(LED_BUILTIN, HIGH)\<close> and \<^verbatim>\<open>Radio.StartCad\<close>; it does not call
  \<^verbatim>\<open>Radio.Send\<close>, and every other global, the event word among them, keeps its value.
\<close>

theorem send_lora_packet_while_busy:
  assumes "\<not> Listening s"
    and "unat size' \<le> length data" and "unat size' \<le> length (g_tx_lora_data s)"
  shows "send_lora_packet c data size' s =
    Inr (True, s\<lparr>g_tx_data_len := unat size',
                 g_tx_lora_data := take (unat size') data @ drop (unat size') (g_tx_lora_data s),
                 effects := effects s @
                   [RadioSleep,
                    RadioSetCadParams LORA_CAD_08_SYMBOL (p2p_sf (g_lorawan_settings s) + 13) 10
                      LORA_CAD_ONLY 0,
                    DigitalWrite (LED_BUILTIN c) HIGH,
                    RadioStartCad]\<rparr>)"
  using assms(2,3) by (rule send_lora_packet_eq)

theorem send_lora_packet_while_busy_witness:
  "\<not> Listening sensing_state \<and>
   unat (1 :: 8 word) \<le> length [9 :: byte] \<and>
   unat (1 :: 8 word) \<le> length (g_tx_lora_data sensing_state) \<and>
   send_lora_packet example_consts [9] 1 sensing_state =
    Inr (True, sensing_state\<lparr>g_tx_data_len := 1,
                 g_tx_lora_data := [9, 2, 3] @ replicate 253 0,
                 effects := effects sensing_state @
                   [RadioSleep, RadioSetCadParams LORA_CAD_08_SYMBOL 20 10 LORA_CAD_ONLY 0,
                    DigitalWrite 35 HIGH, RadioStartCad]\<rparr>)"
proof -
  have busy: "\<not> Listening sensing_state"
    by (rule sensing_state_not_Listening)
  have len: "unat (1 :: 8 word) \<le> length [9 :: byte]"
    "unat (1 :: 8 word) \<le> length (g_tx_lora_data sensing_state)"
    by (simp_all add: sensing_state_def)
  show ?thesis
    using send_lora_packet_while_busy [OF busy len, of example_consts] busy
    by (simp add: sensing_state_def listening_state_fields example_settings_def
        example_consts_def)
qed

subsection \<open>Payloads longer than 256 bytes\<close>

text \<open>
  The source guards the copy with \<^verbatim>\<open>if (size > 256) return false;\<close>, but \<^verbatim>\<open>size\<close> is a
  \<^verbatim>\<open>uint8_t\<close>: no value of it exceeds 255, the guard cannot fire and the function never
  returns \<^verbatim>\<open>false\<close>.  The length of a longer payload reaches the function reduced modulo
  256, and the request goes through with that many bytes.
\<close>

lemma send_lora_packet_never_rejects:
  assumes "256 < length payload"
    and "length payload mod 256 \<le> length (g_tx_lora_data s)"
  shows "\<not> 256 < unat size' \<and>
    send_lora_packet c data size' t \<noteq> Inr (False, t') \<and>
    unat (word_of_nat (length payload) :: 8 word) = length payload mod 256 \<and>
    send_lora_packet c payload (word_of_nat (length payload)) s =
    Inr (True, s\<lparr>g_tx_data_len := length payload mod 256,
                 g_tx_lora_data := take (length payload mod 256) payload @
                                   drop (length payload mod 256) (g_tx_lora_data s),
                 effects := effects s @
                   [RadioSleep,
                    RadioSetCadParams LORA_CAD_08_SYMBOL (p2p_sf (g_lorawan_settings s) + 13) 10
                      LORA_CAD_ONLY 0,
                    DigitalWrite (LED_BUILTIN c) HIGH,
                    RadioStartCad]\<rparr>)"
proof -
  have u: "unat (word_of_nat (length payload) :: 8 word) = length payload mod 256"
    by (rule unat_word_of_nat8)
  have "length payload mod 256 < 256" by simp
  with assms(1) have src: "unat (word_of_nat (length payload) :: 8 word) \<le> length payload"
    unfolding u by linarith
  have dst: "unat (word_of_nat (length payload) :: 8 word) \<le> length (g_tx_lora_data s)"
    unfolding u by (rule assms(2))
  have g: "\<not> 256 < unat size'"
    using unat_size8_le [of size'] by simp
  then have n: "send_lora_packet c data size' t \<noteq> Inr (False, t')"
    by (simp add: send_lora_packet_def Let_def split: sum.split)
  from g n u send_lora_packet_eq [OF src dst, of c] show ?thesis
    unfolding u by (intro conjI)
qed

text \<open>
  Claim C2 says that for every payload whose length exceeds 256 the request fails, returns
  \<^verbatim>\<open>false\<close>, copies nothing into the pending frame, invokes no radio primitive and leaves
  the link state unchanged; the guard in the source says the same.  The code does not do
  it.  For a payload of 257 bytes, requested with its length while the link is listening,
  the parameter receives 1: the call returns \<^verbatim>\<open>true\<close>, sets the pending length to 1,
  copies the first byte into the transmit buffer, calls \<^verbatim>\<open>Radio.Sleep\<close>,
  \<^verbatim>\<open>Radio.SetCadParams\<close> and \<^verbatim>\<open>Radio.StartCad\<close>, and the link is sensing.
\<close>

theorem send_lora_packet_oversize_not_rejected:
  "256 < length (replicate 257 (7 :: byte)) \<and>
   Listening listening_state \<and>
   \<not> isl (send_lora_packet example_consts (replicate 257 7)
            (word_of_nat (length (replicate 257 (7 :: byte)))) listening_state) \<and>
   fst (projr (send_lora_packet example_consts (replicate 257 7)
            (word_of_nat (length (replicate 257 (7 :: byte)))) listening_state)) = True \<and>
   g_tx_data_len (snd (projr (send_lora_packet example_consts (replicate 257 7)
            (word_of_nat (length (replicate 257 (7 :: byte)))) listening_state))) = 1 \<and>
   g_tx_lora_data listening_state = replicate 256 0 \<and>
   take 1 (g_tx_lora_data (snd (projr (send_lora_packet example_consts (replicate 257 7)
            (word_of_nat (length (replicate 257 (7 :: byte)))) listening_state)))) = [7] \<and>
   effects (snd (projr (send_lora_packet example_consts (replicate 257 7)
            (word_of_nat (length (replicate 257 (7 :: byte)))) listening_state))) =
     effects listening_state @
       [RadioSleep, RadioSetCadParams LORA_CAD_08_SYMBOL 20 10 LORA_CAD_ONLY 0,
        DigitalWrite 35 HIGH, RadioStartCad] \<and>
   Sensing (snd (projr (send_lora_packet example_consts (replicate 257 7)
            (word_of_nat (length (replicate 257 (7 :: byte)))) listening_state)))"
proof -
  have w: "word_of_nat (length (replicate 257 (7 :: byte))) = (1 :: 8 word)"
    by simp
  have len: "unat (1 :: 8 word) \<le> length (replicate 257 (7 :: byte))"
    "unat (1 :: 8 word) \<le> length (g_tx_lora_data listening_state)"
    by (simp_all add: listening_state_fields)
  show ?thesis
    unfolding w
    by (simp add: send_lora_packet_eq [OF len] listening_state_Listening)
      (simp add: example_settings_def example_consts_def boot_state_def
        Sensing_def radio_of_def listening_state_eq radio0_def)
qed

subsection \<open>Transmit complete and transmit timeout\<close>

text \<open>
  Both handlers give the semaphore inside \<^verbatim>\<open>if (g_task_sem != NULL)\<close>.  With no semaphore
  the only call either of them makes is \<^verbatim>\<open>Radio.Rx(0)\<close>: the wake primitive is signalled
  zero times, not once.
\<close>

theorem tx_handlers_no_semaphore_counterexample:
  "g_task_sem no_sem_state = None \<and>
   effects (on_tx_done example_consts no_sem_state) = effects no_sem_state @ [RadioRx 0] \<and>
   wakes (on_tx_done example_consts no_sem_state) = wakes no_sem_state \<and>
   effects (on_tx_timeout example_consts no_sem_state) = effects no_sem_state @ [RadioRx 0] \<and>
   wakes (on_tx_timeout example_consts no_sem_state) = wakes no_sem_state"
  by (simp add: on_tx_done_eq on_tx_timeout_eq no_sem_state_fields wakes_def)

text \<open>
  Claim C3, as the code has it: when the task semaphore exists, \<open>on_tx_done\<close> and
  \<open>on_tx_timeout\<close> both (a) call \<^verbatim>\<open>Radio.Rx(0)\<close> last, which leaves the radio in continuous
  reception, (b) set the bits of \<open>LORA_TX_FIN\<close> in the event word and clear none of the bits
  that were set, (c) set \<open>g_rx_fin_result\<close> to true and to false respectively, and (d) give
  the semaphore exactly once.  These are all their effects.
\<close>

theorem tx_done_and_tx_timeout:
  assumes "g_task_sem s = Some h"
  shows
   "on_tx_done c s =
      s\<lparr>g_rx_fin_result := True,
        g_task_event_type := g_task_event_type s OR LORA_TX_FIN c,
        effects := effects s @ [SemaphoreGive h, RadioRx 0]\<rparr> \<and>
    on_tx_timeout c s =
      s\<lparr>g_rx_fin_result := False,
        g_task_event_type := g_task_event_type s OR LORA_TX_FIN c,
        effects := effects s @ [SemaphoreGive h, RadioRx 0]\<rparr> \<and>
    Listening (on_tx_done c s) \<and> Listening (on_tx_timeout c s) \<and>
    g_task_event_type (on_tx_done c s) AND LORA_TX_FIN c = LORA_TX_FIN c \<and>
    g_task_event_type (on_tx_timeout c s) AND LORA_TX_FIN c = LORA_TX_FIN c \<and>
    g_task_event_type (on_tx_done c s) AND g_task_event_type s = g_task_event_type s \<and>
    g_task_event_type (on_tx_timeout c s) AND g_task_event_type s = g_task_event_type s \<and>
    g_rx_fin_result (on_tx_done c s) = True \<and>
    g_rx_fin_result (on_tx_timeout c s) = False \<and>
    wakes (on_tx_done c s) = wakes s + 1 \<and>
    wakes (on_tx_timeout c s) = wakes s + 1"
proof -
  have d: "on_tx_done c s =
      s\<lparr>g_rx_fin_result := True,
        g_task_event_type := g_task_event_type s OR LORA_TX_FIN c,
        effects := effects s @ [SemaphoreGive h, RadioRx 0]\<rparr>"
    using assms by (simp add: on_tx_done_eq)
  have t: "on_tx_timeout c s =
      s\<lparr>g_rx_fin_result := False,
        g_task_event_type := g_task_event_type s OR LORA_TX_FIN c,
        effects := effects s @ [SemaphoreGive h, RadioRx 0]\<rparr>"
    using assms by (simp add: on_tx_timeout_eq)
  have ed: "effects (on_tx_done c s) = effects s @ [SemaphoreGive h] @ [RadioRx 0]"
    by (simp add: d)
  have et: "effects (on_tx_timeout c s) = effects s @ [SemaphoreGive h] @ [RadioRx 0]"
    by (simp add: t)
  have ld: "Listening (on_tx_done c s)"
    by (rule Listening_after_Rx [OF ed])
  have lt: "Listening (on_tx_timeout c s)"
    by (rule Listening_after_Rx [OF et])
  have wd: "wakes (on_tx_done c s) = wakes s + 1"
    using wakes_append [OF ed] by simp
  have wt: "wakes (on_tx_timeout c s) = wakes s + 1"
    using wakes_append [OF et] by simp
  have bits: "g_task_event_type (on_tx_done c s) AND LORA_TX_FIN c = LORA_TX_FIN c"
    "g_task_event_type (on_tx_timeout c s) AND LORA_TX_FIN c = LORA_TX_FIN c"
    "g_task_event_type (on_tx_done c s) AND g_task_event_type s = g_task_event_type s"
    "g_task_event_type (on_tx_timeout c s) AND g_task_event_type s = g_task_event_type s"
    by (simp_all add: d t or_keeps_bits or_sets_bits)
  have res: "g_rx_fin_result (on_tx_done c s) = True" "g_rx_fin_result (on_tx_timeout c s) = False"
    by (simp_all add: d t)
  from d t ld lt bits res wd wt show ?thesis
    by (intro conjI)
qed

theorem tx_done_and_tx_timeout_witness:
  "g_task_sem listening_state = Some 1 \<and>
   effects (on_tx_done example_consts listening_state) =
     effects listening_state @ [SemaphoreGive 1, RadioRx 0] \<and>
   effects (on_tx_timeout example_consts listening_state) =
     effects listening_state @ [SemaphoreGive 1, RadioRx 0] \<and>
   g_task_event_type (on_tx_done example_consts listening_state) = 16 \<and>
   g_task_event_type (on_tx_timeout example_consts listening_state) = 16 \<and>
   g_rx_fin_result (on_tx_done example_consts listening_state) = True \<and>
   g_rx_fin_result (on_tx_timeout example_consts listening_state) = False \<and>
   wakes (on_tx_done example_consts listening_state) = wakes listening_state + 1 \<and>
   wakes (on_tx_timeout example_consts listening_state) = wakes listening_state + 1"
proof -
  have sem: "g_task_sem listening_state = Some 1"
    by (simp add: listening_state_fields)
  note both = tx_done_and_tx_timeout [OF sem, of example_consts]
  have d: "on_tx_done example_consts listening_state =
      listening_state\<lparr>g_rx_fin_result := True, g_task_event_type := 16,
        effects := effects listening_state @ [SemaphoreGive 1, RadioRx 0]\<rparr>"
    using both by (simp add: listening_state_fields example_consts_def)
  have t: "on_tx_timeout example_consts listening_state =
      listening_state\<lparr>g_rx_fin_result := False, g_task_event_type := 16,
        effects := effects listening_state @ [SemaphoreGive 1, RadioRx 0]\<rparr>"
    using both by (simp add: listening_state_fields example_consts_def)
  have w: "wakes (on_tx_done example_consts listening_state) = wakes listening_state + 1"
    "wakes (on_tx_timeout example_consts listening_state) = wakes listening_state + 1"
    using both by blast+
  show ?thesis
    unfolding w by (simp add: sem d t)
qed

subsection \<open>Receive complete\<close>

text \<open>
  \<open>on_rx_done\<close> gives the semaphore under the same null test: with no semaphore a frame is
  recorded and nothing is signalled.  The copy is a \<^verbatim>\<open>memcpy\<close> of \<open>size'\<close> bytes with no
  check against the capacity of \<open>g_rx_lora_data\<close>: 300 bytes do not fit its 256.
\<close>

theorem on_rx_done_counterexample:
  "g_task_sem no_sem_state = None \<and>
   \<not> isl (on_rx_done example_consts [5, 6] 2 0 0 no_sem_state) \<and>
   effects (projr (on_rx_done example_consts [5, 6] 2 0 0 no_sem_state)) =
     effects no_sem_state @ [RadioRx 0] \<and>
   wakes (projr (on_rx_done example_consts [5, 6] 2 0 0 no_sem_state)) = wakes no_sem_state \<and>
   length (g_rx_lora_data listening_state) = 256 \<and>
   on_rx_done example_consts (replicate 300 5) 300 0 0 listening_state = Inl OutOfBounds"
proof -
  have len: "unat (2 :: 16 word) \<le> length [5 :: byte, 6]"
    "unat (2 :: 16 word) \<le> length (g_rx_lora_data no_sem_state)"
    by (simp_all add: no_sem_state_fields)
  have "on_rx_done example_consts (replicate 300 5) 300 0 0 listening_state = Inl OutOfBounds"
    by (simp add: on_rx_done_def memcpy_def listening_state_fields)
  then show ?thesis
    by (simp add: on_rx_done_eq [OF len] no_sem_state_fields wakes_def listening_state_fields)
qed

text \<open>
  Claim C4, as the code has it: for every invocation of \<open>on_rx_done\<close> in which the task
  semaphore exists and the \<open>size'\<close> bytes can be read from the payload and fit the receive
  buffer, whatever the mode of the radio, the handler records \<open>rssi\<close> and \<open>snr\<close>, copies
  exactly the first \<open>size'\<close> bytes of the payload into \<open>g_rx_lora_data\<close> (the bytes behind
  them keep their values), sets \<open>g_rx_data_len\<close> to \<open>size'\<close>, sets the bits of \<open>LORA_DATA\<close>
  and clears none, gives the semaphore once and calls \<^verbatim>\<open>Radio.Rx(0)\<close>.
\<close>

theorem on_rx_done_records_frame:
  assumes "g_task_sem s = Some h"
    and "unat size' \<le> length payload" and "unat size' \<le> length (g_rx_lora_data s)"
  shows "\<exists>s'. on_rx_done c payload size' rssi snr s = Inr s' \<and>
    g_last_rssi s' = rssi \<and> g_last_snr s' = snr \<and>
    g_rx_data_len s' = unat size' \<and>
    take (unat size') (g_rx_lora_data s') = take (unat size') payload \<and>
    drop (unat size') (g_rx_lora_data s') = drop (unat size') (g_rx_lora_data s) \<and>
    length (g_rx_lora_data s') = length (g_rx_lora_data s) \<and>
    g_task_event_type s' = g_task_event_type s OR LORA_DATA c \<and>
    g_task_event_type s' AND LORA_DATA c = LORA_DATA c \<and>
    g_task_event_type s' AND g_task_event_type s = g_task_event_type s \<and>
    effects s' = effects s @ [SemaphoreGive h, RadioRx 0] \<and>
    wakes s' = wakes s + 1 \<and>
    Listening s'"
proof -
  define s' where "s' =
     s\<lparr>g_last_rssi := rssi, g_last_snr := snr,
       g_rx_lora_data := take (unat size') payload @ drop (unat size') (g_rx_lora_data s),
       g_rx_data_len := unat size',
       g_task_event_type := g_task_event_type s OR LORA_DATA c,
       effects := effects s @ [SemaphoreGive h, RadioRx 0]\<rparr>"
  have r: "on_rx_done c payload size' rssi snr s = Inr s'"
    using assms(1) by (simp add: on_rx_done_eq [OF assms(2,3)] s'_def)
  have e: "effects s' = effects s @ [SemaphoreGive h] @ [RadioRx 0]"
    by (simp add: s'_def)
  have l: "Listening s'"
    by (rule Listening_after_Rx [OF e])
  have w: "wakes s' = wakes s + 1"
    using wakes_append [OF e] by simp
  have f: "g_last_rssi s' = rssi" "g_last_snr s' = snr" "g_rx_data_len s' = unat size'"
    "g_task_event_type s' = g_task_event_type s OR LORA_DATA c"
    "effects s' = effects s @ [SemaphoreGive h, RadioRx 0]"
    by (simp_all add: s'_def)
  have b: "g_task_event_type s' AND LORA_DATA c = LORA_DATA c"
    "g_task_event_type s' AND g_task_event_type s = g_task_event_type s"
    by (simp_all add: s'_def or_keeps_bits or_sets_bits)
  have d: "take (unat size') (g_rx_lora_data s') = take (unat size') payload"
    "drop (unat size') (g_rx_lora_data s') = drop (unat size') (g_rx_lora_data s)"
    "length (g_rx_lora_data s') = length (g_rx_lora_data s)"
    using assms(2,3) by (simp_all add: s'_def)
  from r f b d w l show ?thesis
    by blast
qed

theorem on_rx_done_records_frame_witness:
  "g_task_sem sensing_state = Some 1 \<and>
   unat (2 :: 16 word) \<le> length [5 :: byte, 6] \<and>
   unat (2 :: 16 word) \<le> length (g_rx_lora_data sensing_state) \<and>
   Sensing sensing_state \<and>
   (\<exists>s'. on_rx_done example_consts [5, 6] 2 3 4 sensing_state = Inr s' \<and>
     g_last_rssi s' = 3 \<and> g_last_snr s' = 4 \<and> g_rx_data_len s' = 2 \<and>
     take 2 (g_rx_lora_data s') = [5, 6] \<and>
     g_task_event_type s' = 8 \<and>
     effects s' = effects sensing_state @ [SemaphoreGive 1, RadioRx 0] \<and>
     Listening s')"
proof -
  have sem: "g_task_sem sensing_state = Some 1"
    by (simp add: sensing_state_def listening_state_fields)
  have len: "unat (2 :: 16 word) \<le> length [5 :: byte, 6]"
    "unat (2 :: 16 word) \<le> length (g_rx_lora_data sensing_state)"
    by (simp_all add: sensing_state_def listening_state_fields)
  have ev: "g_task_event_type sensing_state OR LORA_DATA example_consts = 8"
    by (simp add: sensing_state_def listening_state_fields example_consts_def)
  from on_rx_done_records_frame [OF sem len, of example_consts 3 4]
  obtain s' where "on_rx_done example_consts [5, 6] 2 3 4 sensing_state = Inr s'"
    "g_last_rssi s' = 3" "g_last_snr s' = 4" "g_rx_data_len s' = unat (2 :: 16 word)"
    "take (unat (2 :: 16 word)) (g_rx_lora_data s') = take (unat (2 :: 16 word)) [5, 6]"
    "g_task_event_type s' = g_task_event_type sensing_state OR LORA_DATA example_consts"
    "effects s' = effects sensing_state @ [SemaphoreGive 1, RadioRx 0]"
    "Listening s'"
    by blast
  then have "on_rx_done example_consts [5, 6] 2 3 4 sensing_state = Inr s' \<and>
     g_last_rssi s' = 3 \<and> g_last_snr s' = 4 \<and> g_rx_data_len s' = 2 \<and>
     take 2 (g_rx_lora_data s') = [5, 6] \<and>
     g_task_event_type s' = 8 \<and>
     effects s' = effects sensing_state @ [SemaphoreGive 1, RadioRx 0] \<and>
     Listening s'"
    by (simp add: ev)
  then show ?thesis
    using sem len sensing_state_Sensing by blast
qed

subsection \<open>An accepted send request\<close>

text \<open>
  For every payload whose length fits the eight-bit parameter, that is, of at most 255
  bytes, a request made while the link is listening does what the specification says: it
  returns \<^verbatim>\<open>true\<close>, copies the payload and its length into the pending frame, puts the
  radio to sleep, sets the CAD parameters to an 8-symbol window, threshold \<open>p2p_sf + 13\<close>,
  peak count 10, CAD-only mode and timeout 0, writes \<open>HIGH\<close> to the indicator pin, starts
  the CAD and leaves the link sensing.
\<close>

lemma send_lora_packet_accepted:
  assumes "length payload \<le> 255" and "Listening s"
    and "length payload \<le> length (g_tx_lora_data s)"
  shows "\<exists>s'. send_lora_packet c payload (word_of_nat (length payload)) s = Inr (True, s') \<and>
    g_tx_data_len s' = length payload \<and>
    take (length payload) (g_tx_lora_data s') = payload \<and>
    length (g_tx_lora_data s') = length (g_tx_lora_data s) \<and>
    effects s' = effects s @
      [RadioSleep,
       RadioSetCadParams LORA_CAD_08_SYMBOL (p2p_sf (g_lorawan_settings s) + 13) 10
         LORA_CAD_ONLY 0,
       DigitalWrite (LED_BUILTIN c) HIGH,
       RadioStartCad] \<and>
    r_cad_params (radio_of s') =
      Some (RadioSetCadParams LORA_CAD_08_SYMBOL (p2p_sf (g_lorawan_settings s) + 13) 10
         LORA_CAD_ONLY 0) \<and>
    indicator c s' = Some HIGH \<and>
    Sensing s'"
proof -
  let ?n = "length payload"
  let ?cad = "RadioSetCadParams LORA_CAD_08_SYMBOL (p2p_sf (g_lorawan_settings s) + 13) 10
         LORA_CAD_ONLY 0"
  define s' where "s' =
     s\<lparr>g_tx_data_len := ?n,
       g_tx_lora_data := take ?n payload @ drop ?n (g_tx_lora_data s),
       effects := effects s @
         [RadioSleep, ?cad, DigitalWrite (LED_BUILTIN c) HIGH, RadioStartCad]\<rparr>"
  have u: "unat (word_of_nat ?n :: 8 word) = ?n"
    using assms(1) by (simp add: unat_word_of_nat8)
  have src: "unat (word_of_nat ?n :: 8 word) \<le> length payload"
    and dst: "unat (word_of_nat ?n :: 8 word) \<le> length (g_tx_lora_data s)"
    using assms(3) by (simp_all add: u)
  have r: "send_lora_packet c payload (word_of_nat ?n) s = Inr (True, s')"
    by (simp add: send_lora_packet_eq [OF src dst] u s'_def)
  have e: "effects s' = effects s @
         [RadioSleep, ?cad, DigitalWrite (LED_BUILTIN c) HIGH, RadioStartCad]"
    by (simp add: s'_def)
  have e2: "effects s' = effects s @
         [RadioSleep, ?cad, DigitalWrite (LED_BUILTIN c) HIGH] @ [RadioStartCad]"
    by (simp add: s'_def)
  have f: "g_tx_data_len s' = ?n" "take ?n (g_tx_lora_data s') = payload"
    "length (g_tx_lora_data s') = length (g_tx_lora_data s)"
    using assms(3) by (simp_all add: s'_def)
  have cad: "r_cad_params (radio_of s') = Some ?cad"
    by (simp add: radio_of_append [OF e])
  have led: "indicator c s' = Some HIGH"
    by (simp add: indicator_append [OF e])
  have sen: "Sensing s'"
    by (rule Sensing_after_StartCad [OF e2])
  from r f e cad led sen show ?thesis
    by blast
qed

text \<open>
  Claim C5 says that every payload of at most 256 bytes requested while the link is
  listening is accepted and copied into the pending frame; the guard \<^verbatim>\<open>size > 256\<close> of the
  source admits 256 bytes as well.  The code does not copy a payload of exactly 256
  bytes.  Requested with its length while the link is listening, it reaches the
  \<^verbatim>\<open>uint8_t\<close> parameter as size 0: the call returns \<^verbatim>\<open>true\<close>, but the pending length is 0
  and the transmit buffer holds what it held before, none of the payload.
\<close>

theorem send_lora_packet_256_not_copied:
  "length (replicate 256 (7 :: byte)) \<le> 256 \<and>
   Listening listening_state \<and>
   g_tx_lora_data listening_state = replicate 256 0 \<and>
   \<not> isl (send_lora_packet example_consts (replicate 256 7)
            (word_of_nat (length (replicate 256 (7 :: byte)))) listening_state) \<and>
   fst (projr (send_lora_packet example_consts (replicate 256 7)
            (word_of_nat (length (replicate 256 (7 :: byte)))) listening_state)) = True \<and>
   g_tx_data_len (snd (projr (send_lora_packet example_consts (replicate 256 7)
            (word_of_nat (length (replicate 256 (7 :: byte)))) listening_state))) = 0 \<and>
   g_tx_lora_data (snd (projr (send_lora_packet example_consts (replicate 256 7)
            (word_of_nat (length (replicate 256 (7 :: byte)))) listening_state))) =
     replicate 256 0"
proof -
  have w: "word_of_nat (length (replicate 256 (7 :: byte))) = (0 :: 8 word)"
    by simp
  have len: "unat (0 :: 8 word) \<le> length (replicate 256 (7 :: byte))"
    "unat (0 :: 8 word) \<le> length (g_tx_lora_data listening_state)"
    by simp_all
  show ?thesis
    unfolding w
    by (simp add: send_lora_packet_eq [OF len] listening_state_Listening listening_state_fields)
qed

subsection \<open>CAD done, channel busy\<close>

text \<open>
  Claim C6: whenever \<open>on_cad_done\<close> is invoked with the channel reported busy, it calls
  \<^verbatim>\<open>Radio.Rx(0)\<close> and nothing else, so the link is listening again; the event word (and with
  it the bits of \<open>LORA_TX_FIN\<close>) and \<open>g_rx_fin_result\<close> keep their values and the semaphore
  is not given.
\<close>

theorem on_cad_done_busy:
  "on_cad_done True s = s\<lparr>effects := effects s @ [RadioRx 0]\<rparr> \<and>
   Listening (on_cad_done True s) \<and>
   g_task_event_type (on_cad_done True s) = g_task_event_type s \<and>
   g_rx_fin_result (on_cad_done True s) = g_rx_fin_result s \<and>
   wakes (on_cad_done True s) = wakes s"
proof -
  have e: "effects (on_cad_done True s) = effects s @ [] @ [RadioRx 0]"
    by (simp add: on_cad_done_busy_eq)
  have "Listening (on_cad_done True s)"
    by (rule Listening_after_Rx [OF e])
  moreover have "wakes (on_cad_done True s) = wakes s"
    using wakes_append [OF e] by simp
  ultimately show ?thesis
    by (simp add: on_cad_done_busy_eq)
qed

subsection \<open>CAD done, channel clear\<close>

text \<open>
  Claim C7: whenever \<open>on_cad_done\<close> is invoked with the channel reported clear, its one
  call is \<^verbatim>\<open>Radio.Send(g_tx_lora_data, g_tx_data_len)\<close>, after which the link is
  transmitting; and if the state is the one an accepting \<open>send_lora_packet\<close> returned, the
  length sent is the size of that request and the bytes sent are its first \<open>size'\<close> payload
  bytes.
\<close>

theorem on_cad_done_clear:
  "on_cad_done False s =
     s\<lparr>effects := effects s @ [RadioSend (g_tx_lora_data s) (g_tx_data_len s)]\<rparr> \<and>
   Transmitting (on_cad_done False s) \<and>
   (send_lora_packet c data size' s0 = Inr (True, s) \<longrightarrow>
      g_tx_data_len s = unat size' \<and>
      take (g_tx_data_len s) (g_tx_lora_data s) = take (unat size') data \<and>
      length (take (unat size') data) = unat size')"
proof -
  have e: "effects (on_cad_done False s) =
      effects s @ [] @ [RadioSend (g_tx_lora_data s) (g_tx_data_len s)]"
    by (simp add: on_cad_done_clear_eq)
  have t: "Transmitting (on_cad_done False s)"
    by (rule Transmitting_after_Send [OF e])
  have f: "send_lora_packet c data size' s0 = Inr (True, s) \<longrightarrow>
      g_tx_data_len s = unat size' \<and>
      take (g_tx_data_len s) (g_tx_lora_data s) = take (unat size') data \<and>
      length (take (unat size') data) = unat size'"
  proof
    assume "send_lora_packet c data size' s0 = Inr (True, s)"
    from send_lora_packet_frame [OF this]
    show "g_tx_data_len s = unat size' \<and>
      take (g_tx_data_len s) (g_tx_lora_data s) = take (unat size') data \<and>
      length (take (unat size') data) = unat size'"
      by simp
  qed
  from on_cad_done_clear_eq [of s] t f show ?thesis
    by (intro conjI)
qed

theorem on_cad_done_clear_witness:
  "send_lora_packet example_consts [1, 2, 3] 3 listening_state = Inr (True, sensing_state) \<and>
   effects (on_cad_done False sensing_state) =
     effects sensing_state @ [RadioSend ([1, 2, 3] @ replicate 253 0) 3] \<and>
   Transmitting (on_cad_done False sensing_state) \<and>
   g_tx_data_len sensing_state = 3 \<and>
   take (g_tx_data_len sensing_state) (g_tx_lora_data sensing_state) = [1, 2, 3]"
proof -
  note clear = on_cad_done_clear [of sensing_state example_consts "[1, 2, 3]" 3 listening_state]
  have a: "on_cad_done False sensing_state =
     sensing_state\<lparr>effects := effects sensing_state @
       [RadioSend (g_tx_lora_data sensing_state) (g_tx_data_len sensing_state)]\<rparr>"
    using clear by blast
  have b: "Transmitting (on_cad_done False sensing_state)"
    using clear by blast
  have c: "g_tx_data_len sensing_state = unat (3 :: 8 word) \<and>
      take (g_tx_data_len sensing_state) (g_tx_lora_data sensing_state) =
        take (unat (3 :: 8 word)) [1, 2, 3]"
    using clear sensing_state_reached by blast
  have d: "g_tx_lora_data sensing_state = [1, 2, 3] @ replicate 253 0"
    "g_tx_data_len sensing_state = 3"
    by (simp_all add: sensing_state_def)
  have e: "effects (on_cad_done False sensing_state) =
     effects sensing_state @ [RadioSend ([1, 2, 3] @ replicate 253 0) 3]"
    unfolding a by (simp add: d)
  from c have c': "g_tx_data_len sensing_state = 3"
    by simp
  have "take (unat (3 :: 8 word)) [1 :: byte, 2, 3] = [1, 2, 3]"
    by simp
  with c have c'': "take (g_tx_data_len sensing_state) (g_tx_lora_data sensing_state) = [1, 2, 3]"
    by (elim conjE) (rule trans)
  from sensing_state_reached e b c' c'' show ?thesis
    by (intro conjI)
qed

subsection \<open>Initialising twice\<close>

text \<open>
  Claim C8: let \<open>init_lora\<close> run twice with the same settings, the first time on a link that
  is not initialised and with a bring-up that succeeds.  Both calls return 0.  The first
  call runs the bring-up and registers the six handlers once; the second runs neither,
  whatever the bring-up would return.  After the second call the radio is as after the
  first: same handlers, same channel, transmit and receive configuration, taken from the
  settings, and continuous reception.
\<close>

theorem init_lora_twice:
  assumes "\<not> g_lorawan_initialized s"
  shows
   "(let s1 = snd (init_lora c 0 s); s2 = snd (init_lora c hw s1) in
     fst (init_lora c 0 s) = 0 \<and> fst (init_lora c hw s1) = 0 \<and>
     bring_ups s1 = bring_ups s + 1 \<and> bring_ups s2 = bring_ups s1 \<and>
     registrations s1 = registrations s + 1 \<and> registrations s2 = registrations s1 \<and>
     RadioEvents s1 = all_handlers \<and> RadioEvents s2 = all_handlers \<and>
     r_callbacks (radio_of s1) = Some all_handlers \<and>
     radio_of s2 = radio_of s1 \<and>
     r_mode (radio_of s2) = Mode_Rx 0 \<and>
     r_channel (radio_of s2) = Some (p2p_frequency (g_lorawan_settings s)) \<and>
     r_tx_config (radio_of s2) = Some
       (RadioSetTxConfig MODEM_LORA (p2p_tx_power (g_lorawan_settings s)) 0
          (p2p_bandwidth (g_lorawan_settings s)) (p2p_sf (g_lorawan_settings s))
          (p2p_cr (g_lorawan_settings s)) (p2p_preamble_len (g_lorawan_settings s))
          False True 0 0 False 5000) \<and>
     r_rx_config (radio_of s2) = Some
       (RadioSetRxConfig MODEM_LORA (p2p_bandwidth (g_lorawan_settings s))
          (p2p_sf (g_lorawan_settings s)) (p2p_cr (g_lorawan_settings s)) 0
          (p2p_preamble_len (g_lorawan_settings s))
          (p2p_symbol_timeout (g_lorawan_settings s)) False 0 True 0 0 False True) \<and>
     Listening s1 \<and> Listening s2)"
proof -
  define s0 where "s0 = s\<lparr>RadioEvents := all_handlers,
          effects := effects s @ [Rak4630Init, RadioInit all_handlers]\<rparr>"
  define s1 where "s1 = snd (init_lora c 0 s)"
  define s2 where "s2 = snd (init_lora c hw s1)"
  have first: "init_lora c 0 s = init_lora_config c s0"
    using assms by (simp add: init_lora_first_eq s0_def)
  have s1: "s1 = snd (init_lora_config c s0)"
    by (simp add: s1_def first)
  have ini: "g_lorawan_initialized s1"
    by (simp add: s1 init_lora_config_initialized)
  have second: "init_lora c hw s1 = init_lora_config c s1"
    using ini by (rule init_lora_again_eq)
  have s2: "s2 = snd (init_lora_config c s1)"
    by (simp add: s2_def second)
  have set0: "g_lorawan_settings s0 = g_lorawan_settings s"
    by (simp add: s0_def)
  have set1: "g_lorawan_settings s1 = g_lorawan_settings s"
    by (simp add: s1 init_lora_config_settings set0)
  have r0: "radio_of s0 = (radio_of s)\<lparr>r_callbacks := Some all_handlers\<rparr>"
    by (simp add: s0_def radio_of_def)
  have r1: "radio_of s1 =
     (radio_of s)
       \<lparr>r_mode := Mode_Rx 0, r_callbacks := Some all_handlers,
        r_channel := Some (p2p_frequency (g_lorawan_settings s)),
        r_tx_config := Some
          (RadioSetTxConfig MODEM_LORA (p2p_tx_power (g_lorawan_settings s)) 0
             (p2p_bandwidth (g_lorawan_settings s)) (p2p_sf (g_lorawan_settings s))
             (p2p_cr (g_lorawan_settings s)) (p2p_preamble_len (g_lorawan_settings s))
             False True 0 0 False 5000),
        r_rx_config := Some
          (RadioSetRxConfig MODEM_LORA (p2p_bandwidth (g_lorawan_settings s))
             (p2p_sf (g_lorawan_settings s)) (p2p_cr (g_lorawan_settings s)) 0
             (p2p_preamble_len (g_lorawan_settings s))
             (p2p_symbol_timeout (g_lorawan_settings s)) False 0 True 0 0 False True)\<rparr>"
    by (simp add: s1 init_lora_config_radio set0 r0)
  have r2: "radio_of s2 = radio_of s1"
    by (simp add: s2 init_lora_config_radio set1) (simp add: r1)
  have b1: "bring_ups s1 = bring_ups s + 1"
    by (simp add: s1 init_lora_config_bring_ups) (simp add: s0_def bring_ups_def)
  have b2: "bring_ups s2 = bring_ups s1"
    by (simp add: s2 init_lora_config_bring_ups)
  have g1: "registrations s1 = registrations s + 1"
    by (simp add: s1 init_lora_config_registrations) (simp add: s0_def registrations_def)
  have g2: "registrations s2 = registrations s1"
    by (simp add: s2 init_lora_config_registrations)
  have ev1: "RadioEvents s1 = all_handlers"
    by (simp add: s1 init_lora_config_eq s0_def)
  have ev2: "RadioEvents s2 = all_handlers"
    using ev1 by (simp add: s2 init_lora_config_eq)
  have f: "fst (init_lora c 0 s) = 0" "fst (init_lora c hw s1) = 0"
    by (simp_all add: first second init_lora_config_fst)
  have cb: "r_callbacks (radio_of s1) = Some all_handlers"
    by (simp add: r1)
  have m: "r_mode (radio_of s2) = Mode_Rx 0"
    "r_channel (radio_of s2) = Some (p2p_frequency (g_lorawan_settings s))"
    "r_tx_config (radio_of s2) = Some
       (RadioSetTxConfig MODEM_LORA (p2p_tx_power (g_lorawan_settings s)) 0
          (p2p_bandwidth (g_lorawan_settings s)) (p2p_sf (g_lorawan_settings s))
          (p2p_cr (g_lorawan_settings s)) (p2p_preamble_len (g_lorawan_settings s))
          False True 0 0 False 5000)"
    "r_rx_config (radio_of s2) = Some
       (RadioSetRxConfig MODEM_LORA (p2p_bandwidth (g_lorawan_settings s))
          (p2p_sf (g_lorawan_settings s)) (p2p_cr (g_lorawan_settings s)) 0
          (p2p_preamble_len (g_lorawan_settings s))
          (p2p_symbol_timeout (g_lorawan_settings s)) False 0 True 0 0 False True)"
    by (simp_all add: r2 r1)
  have l: "Listening s1" "Listening s2"
    by (simp_all add: Listening_def r2 r1)
  from f b1 b2 g1 g2 ev1 ev2 cb r2 m l show ?thesis
    unfolding Let_def s1_def [symmetric] s2_def [symmetric] by (intro conjI)
qed

theorem init_lora_twice_witness:
  "\<not> g_lorawan_initialized boot_state \<and>
   fst (init_lora example_consts 0 boot_state) = 0 \<and>
   fst (init_lora example_consts 7 listening_state) = 0 \<and>
   bring_ups boot_state = 0 \<and>
   bring_ups listening_state = 1 \<and>
   bring_ups (snd (init_lora example_consts 7 listening_state)) = 1 \<and>
   registrations listening_state = 1 \<and>
   registrations (snd (init_lora example_consts 7 listening_state)) = 1 \<and>
   radio_of (snd (init_lora example_consts 7 listening_state)) = radio_of listening_state \<and>
   r_channel (radio_of (snd (init_lora example_consts 7 listening_state))) = Some 915000000 \<and>
   Listening (snd (init_lora example_consts 7 listening_state))"
proof -
  have un: "\<not> g_lorawan_initialized boot_state"
    by (simp add: boot_state_def)
  have b0: "bring_ups boot_state = 0" "registrations boot_state = 0"
    "p2p_frequency (g_lorawan_settings boot_state) = 915000000"
    by (simp_all add: boot_state_def bring_ups_def registrations_def example_settings_def)
  note twice = init_lora_twice [OF un, of example_consts 7, unfolded Let_def,
      folded listening_state_def]
  have r: "fst (init_lora example_consts 0 boot_state) = 0"
    "fst (init_lora example_consts 7 listening_state) = 0"
    "radio_of (snd (init_lora example_consts 7 listening_state)) = radio_of listening_state"
    "Listening (snd (init_lora example_consts 7 listening_state))"
    using twice by blast+
  have b1: "bring_ups listening_state = bring_ups boot_state + 1"
    and b2: "bring_ups (snd (init_lora example_consts 7 listening_state)) =
      bring_ups listening_state"
    and g1: "registrations listening_state = registrations boot_state + 1"
    and g2: "registrations (snd (init_lora example_consts 7 listening_state)) =
      registrations listening_state"
    and ch: "r_channel (radio_of (snd (init_lora example_consts 7 listening_state))) =
      Some (p2p_frequency (g_lorawan_settings boot_state))"
    using twice by blast+
  have n: "bring_ups listening_state = 1"
    "bring_ups (snd (init_lora example_consts 7 listening_state)) = 1"
    "registrations listening_state = 1"
    "registrations (snd (init_lora example_consts 7 listening_state)) = 1"
    "r_channel (radio_of (snd (init_lora example_consts 7 listening_state))) = Some 915000000"
    unfolding b2 g2 ch unfolding b1 g1 b0 by simp_all
  from un r b0(1) n show ?thesis
    by (intro conjI)
qed

subsection \<open>The indicator light\<close>

text \<open>
  No handler writes to the indicator pin.  After a send cycle that ends with a completed
  transmission, with a transmit timeout or with a busy channel, the link is listening again
  and the indicator is still high.
\<close>

theorem indicator_after_cycle_counterexample:
  "\<not> isl (run example_consts boot_state
            [InitLora 0, SendRequest [1, 2, 3], CadDoneEv False, TxDoneEv]) \<and>
   Listening (projr (run example_consts boot_state
            [InitLora 0, SendRequest [1, 2, 3], CadDoneEv False, TxDoneEv])) \<and>
   indicator example_consts (projr (run example_consts boot_state
            [InitLora 0, SendRequest [1, 2, 3], CadDoneEv False, TxDoneEv])) = Some HIGH \<and>
   \<not> isl (run example_consts boot_state
            [InitLora 0, SendRequest [1, 2, 3], CadDoneEv False, TxTimeoutEv]) \<and>
   Listening (projr (run example_consts boot_state
            [InitLora 0, SendRequest [1, 2, 3], CadDoneEv False, TxTimeoutEv])) \<and>
   indicator example_consts (projr (run example_consts boot_state
            [InitLora 0, SendRequest [1, 2, 3], CadDoneEv False, TxTimeoutEv])) = Some HIGH \<and>
   \<not> isl (run example_consts boot_state
            [InitLora 0, SendRequest [1, 2, 3], CadDoneEv True]) \<and>
   Listening (projr (run example_consts boot_state
            [InitLora 0, SendRequest [1, 2, 3], CadDoneEv True])) \<and>
   indicator example_consts (projr (run example_consts boot_state
            [InitLora 0, SendRequest [1, 2, 3], CadDoneEv True])) = Some HIGH"
proof -
  let ?t = "on_cad_done False sensing_state"
  have e1: "effects (on_tx_done example_consts ?t) =
      effects ?t @ (case g_task_sem ?t of None \<Rightarrow> [] | Some h \<Rightarrow> [SemaphoreGive h]) @ [RadioRx 0]"
    by (simp add: on_tx_done_eq)
  have e2: "effects (on_tx_timeout example_consts ?t) =
      effects ?t @ (case g_task_sem ?t of None \<Rightarrow> [] | Some h \<Rightarrow> [SemaphoreGive h]) @ [RadioRx 0]"
    by (simp add: on_tx_timeout_eq)
  have e3: "effects (on_cad_done True sensing_state) = effects sensing_state @ [] @ [RadioRx 0]"
    by (simp add: on_cad_done_busy_eq)
  have i: "indicator example_consts ?t = Some HIGH"
    by (simp add: indicator_on_cad_done sensing_state_indicator)
  show ?thesis
    unfolding run_send_cycle run_cad_busy step.simps
    by (simp add: Listening_after_Rx [OF e1] Listening_after_Rx [OF e2]
        Listening_after_Rx [OF e3] indicator_on_tx_done indicator_on_tx_timeout
        indicator_on_cad_done sensing_state_indicator)
qed

text \<open>
  Claim C9, as the code has it: the indicator is high after every accepted
  \<open>send_lora_packet\<close> and low after every successful \<open>init_lora\<close>, and none of the six
  handlers changes it.  So it is high while the link senses and transmits, and it stays
  high when the send cycle has ended, until \<open>init_lora\<close> runs again.
\<close>

theorem indicator_changes:
  "indicator c (on_tx_done c s) = indicator c s \<and>
   indicator c (on_tx_timeout c s) = indicator c s \<and>
   indicator c (on_cad_done b s) = indicator c s \<and>
   indicator c (on_rx_timeout s) = indicator c s \<and>
   indicator c (on_rx_crc_error s) = indicator c s \<and>
   (on_rx_done c payload n rssi snr s = Inr s' \<longrightarrow> indicator c s' = indicator c s) \<and>
   (send_lora_packet c data size' s = Inr (True, s'') \<longrightarrow> indicator c s'' = Some HIGH) \<and>
   (fst (init_lora c hw s) = 0 \<longrightarrow> indicator c (snd (init_lora c hw s)) = Some LOW)"
proof -
  have "indicator c (on_rx_timeout s) = indicator c s"
    "indicator c (on_rx_crc_error s) = indicator c s"
    by (simp_all add: on_rx_timeout_eq on_rx_crc_error_eq indicator_def)
  then show ?thesis
    using indicator_on_tx_done [of c s] indicator_on_tx_timeout [of c s]
      indicator_on_cad_done [of c b s] indicator_on_rx_done [of c payload n rssi snr s s']
      indicator_send_lora_packet [of c data size' s s''] indicator_init_lora [of c hw s]
    by blast
qed

theorem indicator_changes_witness:
  "fst (init_lora example_consts 0 boot_state) = 0 \<and>
   indicator example_consts listening_state = Some LOW \<and>
   send_lora_packet example_consts [1, 2, 3] 3 listening_state = Inr (True, sensing_state) \<and>
   indicator example_consts sensing_state = Some HIGH \<and>
   indicator example_consts (on_cad_done False sensing_state) = Some HIGH \<and>
   indicator example_consts (on_tx_done example_consts sensing_state) = Some HIGH \<and>
   indicator example_consts (on_tx_timeout example_consts sensing_state) = Some HIGH \<and>
   on_rx_done example_consts [5, 6] 2 0 0 sensing_state =
     Inr (projr (on_rx_done example_consts [5, 6] 2 0 0 sensing_state)) \<and>
   indicator example_consts (projr (on_rx_done example_consts [5, 6] 2 0 0 sensing_state)) =
     Some HIGH"
proof -
  have i0: "fst (init_lora example_consts 0 boot_state) = 0"
    by (simp add: init_lora_first_eq init_lora_config_fst boot_state_def)
  have len: "unat (2 :: 16 word) \<le> length [5 :: byte, 6]"
    "unat (2 :: 16 word) \<le> length (g_rx_lora_data sensing_state)"
    by (simp_all add: sensing_state_def listening_state_fields)
  have rx: "on_rx_done example_consts [5, 6] 2 0 0 sensing_state =
     Inr (projr (on_rx_done example_consts [5, 6] 2 0 0 sensing_state))"
    by (simp add: on_rx_done_eq [OF len])
  note at_boot = indicator_changes [of example_consts boot_state False "[]" 0 0 0 boot_state
      "[]" 0 boot_state 0]
  note at_listening = indicator_changes [of example_consts listening_state False "[]" 0 0 0
      listening_state "[1, 2, 3]" 3 sensing_state 0]
  note at_sensing = indicator_changes [of example_consts sensing_state False "[5, 6]" 2 0 0
      "projr (on_rx_done example_consts [5, 6] 2 0 0 sensing_state)" "[]" 0 sensing_state 0]
  have a: "indicator example_consts listening_state = Some LOW"
    unfolding listening_state_def using at_boot i0 by blast
  have b: "indicator example_consts sensing_state = Some HIGH"
    using at_listening sensing_state_reached by blast
  have c: "indicator example_consts (on_cad_done False sensing_state) = Some HIGH"
    "indicator example_consts (on_tx_done example_consts sensing_state) = Some HIGH"
    "indicator example_consts (on_tx_timeout example_consts sensing_state) = Some HIGH"
    "indicator example_consts (projr (on_rx_done example_consts [5, 6] 2 0 0 sensing_state)) =
     Some HIGH"
    using at_sensing rx b by simp_all
  from i0 a sensing_state_reached b c rx show ?thesis
    by (intro conjI)
qed

subsection \<open>Handlers without a task semaphore\<close>

text \<open>
  Claim C10: when \<open>g_task_sem\<close> is null, every handler still does all the rest of its work.
  \<open>on_tx_done\<close> and \<open>on_tx_timeout\<close> record the result and set the bits of \<open>LORA_TX_FIN\<close>,
  \<open>on_rx_done\<close> (for a size within the payload and the buffer) records the frame and sets
  the bits of \<open>LORA_DATA\<close>, and each of the three then calls \<^verbatim>\<open>Radio.Rx(0)\<close>; the other three
  handlers never touch the semaphore.  No handler gives the semaphore.
\<close>

theorem handlers_without_semaphore:
  assumes "g_task_sem s = None"
    and "unat size' \<le> length payload" and "unat size' \<le> length (g_rx_lora_data s)"
  shows
   "on_tx_done c s =
      s\<lparr>g_rx_fin_result := True,
        g_task_event_type := g_task_event_type s OR LORA_TX_FIN c,
        effects := effects s @ [RadioRx 0]\<rparr> \<and>
    on_tx_timeout c s =
      s\<lparr>g_rx_fin_result := False,
        g_task_event_type := g_task_event_type s OR LORA_TX_FIN c,
        effects := effects s @ [RadioRx 0]\<rparr> \<and>
    on_rx_done c payload size' rssi snr s =
      Inr (s\<lparr>g_last_rssi := rssi, g_last_snr := snr,
             g_rx_lora_data := take (unat size') payload @ drop (unat size') (g_rx_lora_data s),
             g_rx_data_len := unat size',
             g_task_event_type := g_task_event_type s OR LORA_DATA c,
             effects := effects s @ [RadioRx 0]\<rparr>) \<and>
    on_rx_timeout s = s\<lparr>effects := effects s @ [RadioRx 0]\<rparr> \<and>
    on_rx_crc_error s = s\<lparr>effects := effects s @ [RadioRx 0]\<rparr> \<and>
    on_cad_done b s =
      s\<lparr>effects := effects s @
          [if b then RadioRx 0 else RadioSend (g_tx_lora_data s) (g_tx_data_len s)]\<rparr> \<and>
    wakes (on_tx_done c s) = wakes s \<and>
    wakes (on_tx_timeout c s) = wakes s \<and>
    wakes (projr (on_rx_done c payload size' rssi snr s)) = wakes s \<and>
    wakes (on_rx_timeout s) = wakes s \<and>
    wakes (on_rx_crc_error s) = wakes s \<and>
    wakes (on_cad_done b s) = wakes s"
proof -
  have d: "on_tx_done c s =
      s\<lparr>g_rx_fin_result := True,
        g_task_event_type := g_task_event_type s OR LORA_TX_FIN c,
        effects := effects s @ [RadioRx 0]\<rparr>"
    using assms(1) by (simp add: on_tx_done_eq)
  have t: "on_tx_timeout c s =
      s\<lparr>g_rx_fin_result := False,
        g_task_event_type := g_task_event_type s OR LORA_TX_FIN c,
        effects := effects s @ [RadioRx 0]\<rparr>"
    using assms(1) by (simp add: on_tx_timeout_eq)
  have r: "on_rx_done c payload size' rssi snr s =
      Inr (s\<lparr>g_last_rssi := rssi, g_last_snr := snr,
             g_rx_lora_data := take (unat size') payload @ drop (unat size') (g_rx_lora_data s),
             g_rx_data_len := unat size',
             g_task_event_type := g_task_event_type s OR LORA_DATA c,
             effects := effects s @ [RadioRx 0]\<rparr>)"
    using assms(1) by (simp add: on_rx_done_eq [OF assms(2,3)])
  have k: "on_cad_done b s =
      s\<lparr>effects := effects s @
          [if b then RadioRx 0 else RadioSend (g_tx_lora_data s) (g_tx_data_len s)]\<rparr>"
    by (simp add: on_cad_done_busy_eq on_cad_done_clear_eq)
  have w: "wakes (on_tx_done c s) = wakes s" "wakes (on_tx_timeout c s) = wakes s"
    "wakes (projr (on_rx_done c payload size' rssi snr s)) = wakes s"
    "wakes (on_rx_timeout s) = wakes s" "wakes (on_rx_crc_error s) = wakes s"
    "wakes (on_cad_done b s) = wakes s"
    by (simp_all add: d t r k on_rx_timeout_eq on_rx_crc_error_eq wakes_def)
  from d t r on_rx_timeout_eq [of s] on_rx_crc_error_eq [of s] k w show ?thesis
    by (intro conjI)
qed

theorem handlers_without_semaphore_witness:
  "g_task_sem no_sem_state = None \<and>
   unat (2 :: 16 word) \<le> length [5 :: byte, 6] \<and>
   unat (2 :: 16 word) \<le> length (g_rx_lora_data no_sem_state) \<and>
   effects (on_tx_done example_consts no_sem_state) = effects no_sem_state @ [RadioRx 0] \<and>
   g_rx_fin_result (on_tx_done example_consts no_sem_state) = True \<and>
   g_task_event_type (on_tx_done example_consts no_sem_state) = 16 \<and>
   effects (on_tx_timeout example_consts no_sem_state) = effects no_sem_state @ [RadioRx 0] \<and>
   g_rx_fin_result (on_tx_timeout example_consts no_sem_state) = False \<and>
   effects (projr (on_rx_done example_consts [5, 6] 2 3 4 no_sem_state)) =
     effects no_sem_state @ [RadioRx 0] \<and>
   g_rx_data_len (projr (on_rx_done example_consts [5, 6] 2 3 4 no_sem_state)) = 2 \<and>
   g_task_event_type (projr (on_rx_done example_consts [5, 6] 2 3 4 no_sem_state)) = 8 \<and>
   wakes (on_tx_done example_consts no_sem_state) = wakes no_sem_state"
proof -
  have sem: "g_task_sem no_sem_state = None"
    by (simp add: no_sem_state_fields)
  have len: "unat (2 :: 16 word) \<le> length [5 :: byte, 6]"
    "unat (2 :: 16 word) \<le> length (g_rx_lora_data no_sem_state)"
    by (simp_all add: no_sem_state_fields)
  note h = handlers_without_semaphore [OF sem len, of example_consts 3 4 True]
  have ev: "g_task_event_type no_sem_state = 0"
    by (simp add: no_sem_state_def listening_state_fields)
  have d: "on_tx_done example_consts no_sem_state =
      no_sem_state\<lparr>g_rx_fin_result := True,
        g_task_event_type := g_task_event_type no_sem_state OR LORA_TX_FIN example_consts,
        effects := effects no_sem_state @ [RadioRx 0]\<rparr>"
    using h by blast
  have t: "on_tx_timeout example_consts no_sem_state =
      no_sem_state\<lparr>g_rx_fin_result := False,
        g_task_event_type := g_task_event_type no_sem_state OR LORA_TX_FIN example_consts,
        effects := effects no_sem_state @ [RadioRx 0]\<rparr>"
    using h by blast
  have r: "on_rx_done example_consts [5, 6] 2 3 4 no_sem_state =
      Inr (no_sem_state\<lparr>g_last_rssi := 3, g_last_snr := 4,
             g_rx_lora_data := take (unat (2 :: 16 word)) [5, 6] @
               drop (unat (2 :: 16 word)) (g_rx_lora_data no_sem_state),
             g_rx_data_len := unat (2 :: 16 word),
             g_task_event_type := g_task_event_type no_sem_state OR LORA_DATA example_consts,
             effects := effects no_sem_state @ [RadioRx 0]\<rparr>)"
    using h by blast
  have w: "wakes (on_tx_done example_consts no_sem_state) = wakes no_sem_state"
    using h by blast
  have c: "LORA_TX_FIN example_consts = 16" "LORA_DATA example_consts = 8"
    by (simp_all add: example_consts_def)
  show ?thesis
    unfolding w unfolding d t r ev c by (simp add: sem no_sem_state_fields)
qed

end
